theory Spec2Isabelle
  imports Main "HOL-Library.Word" "HOL-Library.Sublist"
begin

section \<open>The playground program\<close>

text \<open>
  The repository holds one C translation unit, \<^verbatim>\<open>playground/main.c\<close>, whose only
  function is \<^verbatim>\<open>main(int argc, char *argv[])\<close>. It writes a banner to standard
  output, echoes \<^verbatim>\<open>argv[1] .. argv[argc - 1]\<close> with their index, writes a closing line
  and returns 0.

  The embedding follows the text of \<^verbatim>\<open>main\<close> statement by statement:
  \<^item> \<^verbatim>\<open>int\<close> is a 32-bit two's complement word; \<^verbatim>\<open>argc > 1\<close> and \<^verbatim>\<open>i < argc\<close> are
    signed comparisons and \<^verbatim>\<open>i++\<close> is word addition (it wraps);
  \<^item> \<^verbatim>\<open>argv\<close> is the vector of pointers the program receives: a list whose entries are
    \<open>Some s\<close> for a pointer to the C string with the bytes \<open>s\<close> (the bytes before the
    terminating NUL) and \<open>None\<close> for a null pointer;
  \<^item> standard output is a byte string that every \<^verbatim>\<open>printf\<close> extends at its end;
  \<^item> the two operations of \<^verbatim>\<open>main\<close> that C leaves undefined, reading \<^verbatim>\<open>argv[i]\<close>
    outside the vector and handing a null pointer to \<^verbatim>\<open>%s\<close>, are results of their own
    (\<open>Inl\<close> of a \<open>fault\<close>), so that "cannot fail" is a statement that can be false;
  \<^item> the \<^verbatim>\<open>for\<close> loop is a recursive function in the option monad, where \<open>None\<close>
    stands for a loop that never ends, so that termination is a theorem and not an
    assumption of the model.
\<close>

subsection \<open>Data\<close>

type_synonym c_int = "32 word"

type_synonym argv = "string option list"

type_synonym stdout = string

datatype fault = OutOfBounds | NullString

subsection \<open>The pieces of \<^verbatim>\<open>printf\<close> that \<^verbatim>\<open>main\<close> uses\<close>

text \<open>
  \<^verbatim>\<open>printf\<close> belongs to the C library, not to the repository. A call with a format
  that has no conversion appends the format's bytes to standard output. The conversion
  \<^verbatim>\<open>%d\<close> writes its \<^verbatim>\<open>int\<close> argument in decimal, with a minus sign when it is
  negative and no leading zero; \<^verbatim>\<open>%s\<close> writes the bytes of its string argument as
  they are.
\<close>

definition printf :: "string \<Rightarrow> stdout \<Rightarrow> stdout" where
  "printf text out = out @ text"

definition digit_char :: "nat \<Rightarrow> char" where
  "digit_char d = ''0123456789'' ! d"

fun dec_nat :: "nat \<Rightarrow> string" where
  "dec_nat n = (if n < 10 then [digit_char n] else dec_nat (n div 10) @ [digit_char (n mod 10)])"

declare dec_nat.simps [simp del]

definition dec_int :: "int \<Rightarrow> string" where
  "dec_int k = (if k < 0 then CHR ''-'' # dec_nat (nat (- k)) else dec_nat (nat k))"

text \<open>
  Reading a decimal numeral back, to state that \<open>dec_nat\<close> writes the decimal numeral
  of its argument.
\<close>

definition digit_val :: "char \<Rightarrow> nat" where
  "digit_val c = of_char c - 48"

definition dec_val :: "string \<Rightarrow> nat" where
  "dec_val ds = foldl (\<lambda>a c. 10 * a + digit_val c) 0 ds"

text \<open>\<^verbatim>\<open>printf("  [%d]: %s\n", i, s)\<close>\<close>

definition printf_d_s :: "c_int \<Rightarrow> string option \<Rightarrow> stdout \<Rightarrow> fault + stdout" where
  "printf_d_s i s out =
     (case s of
        None \<Rightarrow> Inl NullString
      | Some v \<Rightarrow> Inr (out @ ''  ['' @ dec_int (sint i) @ '']: '' @ v @ ''\<newline>''))"

subsection \<open>\<^verbatim>\<open>main\<close>\<close>

text \<open>\<^verbatim>\<open>argv[i]\<close>: a read inside the vector gives the pointer stored there.\<close>

definition argv_at :: "argv \<Rightarrow> c_int \<Rightarrow> fault + string option" where
  "argv_at argv i =
     (if 0 \<le> sint i \<and> nat (sint i) < length argv then Inr (argv ! nat (sint i))
      else Inl OutOfBounds)"

text \<open>
  \<^verbatim>\<open>for (int i = 1; i < argc; i++) { printf("  [%d]: %s\n", i, argv[i]); }\<close>,
  entered with the current value of \<^verbatim>\<open>i\<close>.
\<close>

partial_function (option) args_loop ::
  "c_int \<Rightarrow> c_int \<Rightarrow> argv \<Rightarrow> stdout \<Rightarrow> (fault + stdout) option" where
  "args_loop i argc argv out =
     (if i <s argc then
        (case argv_at argv i of
           Inl e \<Rightarrow> Some (Inl e)
         | Inr s \<Rightarrow>
             (case printf_d_s i s out of
                Inl e \<Rightarrow> Some (Inl e)
              | Inr out' \<Rightarrow> args_loop (i + 1) argc argv out'))
      else Some (Inr out))"

text \<open>
  The result of \<open>main\<close> is \<open>None\<close> when it never returns, \<open>Some (Inl f)\<close> when it runs
  into the fault \<open>f\<close>, and \<open>Some (Inr (out, code))\<close> when it returns \<open>code\<close> with \<open>out\<close>
  on standard output. \<open>out0\<close> is what standard output holds when \<open>main\<close> starts.
\<close>

definition main :: "c_int \<Rightarrow> argv \<Rightarrow> stdout \<Rightarrow> (fault + stdout \<times> c_int) option" where
  "main argc argv out0 =
     (let out1 = printf ''=== Playground Test Area for Orca ===\<newline>'' out0;
          out2 = printf ''Hello from playground!\<newline>'' out1;
          out3 = printf ''This is a test environment for orca integration.\<newline>\<newline>'' out2
      in case (if 1 <s argc
               then args_loop 1 argc argv (printf ''Arguments received:\<newline>'' out3)
               else Some (Inr (printf ''No arguments provided.\<newline>'' out3))) of
           None \<Rightarrow> None
         | Some (Inl e) \<Rightarrow> Some (Inl e)
         | Some (Inr out4) \<Rightarrow>
             Some (Inr (printf ''\<newline>Playground test completed successfully.\<newline>'' out4, 0)))"

subsection \<open>Program startup\<close>

text \<open>
  What the C standard promises \<^verbatim>\<open>main\<close> at program startup, for the strings \<open>strs\<close>
  (the program name first, when there is one, then the arguments): \<^verbatim>\<open>argc\<close> is their
  number, \<^verbatim>\<open>argv[0] .. argv[argc - 1]\<close> point to them, in order, and \<^verbatim>\<open>argv[argc]\<close> is
  a null pointer. An \<^verbatim>\<open>int\<close> holds the number, so there are fewer than \<open>2 ^ 31\<close> strings.
\<close>

definition hosted :: "c_int \<Rightarrow> argv \<Rightarrow> string list \<Rightarrow> bool" where
  "hosted argc argv strs \<longleftrightarrow> sint argc = int (length strs) \<and> argv = map Some strs @ [None]"

subsection \<open>The output as the specification words it\<close>

text \<open>
  These definitions follow the specification's contract (its section 4.1), not the code:
  the banner of three lines and a blank line; one line \<open>  [<index>]: <value>\<close> for each
  argument, numbered from 1 in the order received; \<open>No arguments provided.\<close> when there
  is none; a blank line and the completion line.
\<close>

definition spec_banner :: string where
  "spec_banner =
     ''=== Playground Test Area for Orca ===\<newline>'' @
     ''Hello from playground!\<newline>'' @
     ''This is a test environment for orca integration.\<newline>'' @
     ''\<newline>''"

definition spec_arg_line :: "nat \<Rightarrow> string \<Rightarrow> string" where
  "spec_arg_line j v = ''  ['' @ dec_int (int j) @ '']: '' @ v @ ''\<newline>''"

definition spec_arg_lines :: "nat \<Rightarrow> string list \<Rightarrow> string" where
  "spec_arg_lines k args = concat (map2 spec_arg_line [k..<k + length args] args)"

definition spec_arg_section :: "string list \<Rightarrow> string" where
  "spec_arg_section args =
     (if args \<noteq> [] then ''Arguments received:\<newline>'' @ spec_arg_lines 1 args
      else ''No arguments provided.\<newline>'')"

definition spec_closing :: string where
  "spec_closing = ''\<newline>'' @ ''Playground test completed successfully.\<newline>''"

section \<open>Decimal numerals\<close>

lemma digit_val_digit_char: "d < 10 \<Longrightarrow> digit_val (digit_char d) = d"
proof -
  assume "d < 10"
  then consider "d = 0" | "d = 1" | "d = 2" | "d = 3" | "d = 4"
    | "d = 5" | "d = 6" | "d = 7" | "d = 8" | "d = 9"
    by atomize_elim arith
  then show ?thesis
    by cases (simp_all add: digit_val_def digit_char_def)
qed

lemma dec_val_dec_nat: "dec_val (dec_nat n) = n"
proof (induction n rule: dec_nat.induct)
  case (1 n)
  show ?case
  proof (cases "n < 10")
    case True
    then show ?thesis
      by (simp add: dec_nat.simps [of n] dec_val_def digit_val_digit_char)
  next
    case False
    with 1 have "dec_val (dec_nat (n div 10)) = n div 10" by simp
    with False show ?thesis
      by (simp add: dec_nat.simps [of n] dec_val_def digit_val_digit_char)
  qed
qed

section \<open>The loop\<close>

lemma sint_incr:
  fixes i argc :: "32 word"
  assumes "i <s argc"
  shows "sint (i + 1) = sint i + 1"
proof -
  have "sint i < sint argc" using assms by (simp add: word_sless_alt)
  moreover have "sint argc < 2 ^ 31" using sint_lt [of argc] by simp
  moreover have "- (2 ^ 31) \<le> sint i" using sint_ge [of i] by simp
  ultimately have "- (2 ^ 31) \<le> sint i + 1" "sint i + 1 < 2 ^ 31" by linarith+
  then have "signed_take_bit 31 (sint i + 1) = sint i + 1"
    by (simp add: signed_take_bit_int_eq_self)
  then show ?thesis by (simp add: sint_word_add)
qed

lemma spec_arg_lines_Nil: "spec_arg_lines k [] = []"
  by (simp add: spec_arg_lines_def)

lemma spec_arg_lines_Cons:
  "spec_arg_lines k (v # vs) = spec_arg_line k v @ spec_arg_lines (Suc k) vs"
  by (simp add: spec_arg_lines_def upt_conv_Cons del: upt_Suc)

lemma args_loop_hosted:
  assumes "sint argc = int (length strs)" and "sint i = int k" and "k \<le> length strs"
  shows "args_loop i argc (map Some strs @ [None]) out =
         Some (Inr (out @ spec_arg_lines k (drop k strs)))"
  using assms(2,3)
proof (induction "length strs - k" arbitrary: i k out)
  case 0
  then have "\<not> i <s argc" using assms(1) by (simp add: word_sless_alt)
  with 0 show ?case
    by (subst args_loop.simps) (simp add: spec_arg_lines_Nil)
next
  case (Suc n)
  then have lt: "k < length strs" by linarith
  then have enter: "i <s argc" using assms(1) Suc.prems by (simp add: word_sless_alt)
  have at: "argv_at (map Some strs @ [None]) i = Inr (Some (strs ! k))"
    using lt Suc.prems by (simp add: argv_at_def nth_append)
  have pr: "printf_d_s i (Some (strs ! k)) out = Inr (out @ spec_arg_line k (strs ! k))"
    using Suc.prems by (simp add: printf_d_s_def spec_arg_line_def)
  have next_i: "sint (i + 1) = int (Suc k)"
    using sint_incr [OF enter] Suc.prems by simp
  have "args_loop (i + 1) argc (map Some strs @ [None]) (out @ spec_arg_line k (strs ! k)) =
        Some (Inr ((out @ spec_arg_line k (strs ! k)) @ spec_arg_lines (Suc k) (drop (Suc k) strs)))"
    using Suc.hyps(2) lt next_i by (intro Suc.hyps(1)) simp_all
  moreover have "drop k strs = strs ! k # drop (Suc k) strs"
    using lt by (simp add: Cons_nth_drop_Suc)
  ultimately show ?case
    by (subst args_loop.simps) (simp add: enter at pr spec_arg_lines_Cons)
qed

lemma main_hosted:
  assumes "hosted argc argv strs"
  shows "main argc argv out0 =
         Some (Inr (out0 @ spec_banner @ spec_arg_section (tl strs) @ spec_closing, 0))"
proof (cases "1 <s argc")
  case False
  then have "length strs \<le> 1" using assms by (simp add: hosted_def word_sless_alt)
  then have "tl strs = []" by (cases strs) simp_all
  with False show ?thesis
    by (simp add: main_def printf_def spec_banner_def spec_arg_section_def spec_closing_def)
next
  case True
  then have len: "1 < length strs" using assms by (simp add: hosted_def word_sless_alt)
  then have "tl strs \<noteq> []" by (cases strs) auto
  moreover have "args_loop 1 argc argv out =
        Some (Inr (out @ spec_arg_lines 1 (tl strs)))" for out
    using args_loop_hosted [of argc strs 1 1 out] assms len
    by (simp add: hosted_def drop_Suc)
  ultimately show ?thesis using True
    by (simp add: main_def printf_def spec_banner_def spec_arg_section_def spec_closing_def)
qed

lemma args_loop_returns: "\<exists>r. args_loop i argc argv out = Some r"
proof (induction "nat (sint argc - sint i)" arbitrary: i out rule: less_induct)
  case less
  show ?case
  proof (cases "i <s argc")
    case False
    then show ?thesis by (subst args_loop.simps) simp
  next
    case True
    then have "nat (sint argc - sint (i + 1)) < nat (sint argc - sint i)"
      by (simp add: sint_incr word_sless_alt)
    then have "\<exists>r. args_loop (i + 1) argc argv out' = Some r" for out'
      by (rule less)
    then show ?thesis
      by (subst args_loop.simps) (simp add: True split: sum.split)
  qed
qed

lemma argv_at_tail:
  "0 < sint i \<Longrightarrow> argv_at (p # rest) i = argv_at (q # rest) i"
  by (cases "nat (sint i)") (simp_all add: argv_at_def)

lemma args_loop_argv0:
  "0 < sint i \<Longrightarrow> args_loop i argc (p # rest) out = args_loop i argc (q # rest) out"
proof (induction "nat (sint argc - sint i)" arbitrary: i out rule: less_induct)
  case less
  show ?case
  proof (cases "i <s argc")
    case False
    then show ?thesis by (simp add: args_loop.simps [of i])
  next
    case True
    then have "nat (sint argc - sint (i + 1)) < nat (sint argc - sint i)"
      and "0 < sint (i + 1)"
      using less.prems by (simp_all add: sint_incr word_sless_alt)
    then have "args_loop (i + 1) argc (p # rest) out' = args_loop (i + 1) argc (q # rest) out'"
      for out'
      by (rule less.hyps)
    then show ?thesis
      using argv_at_tail [OF less.prems, of p rest q]
      by (simp add: args_loop.simps [of i] True split: sum.split)
  qed
qed

lemma spec_arg_lines_newline:
  "args \<noteq> [] \<Longrightarrow> suffix ''\<newline>'' (spec_arg_lines k args)"
proof (induction args arbitrary: k)
  case Nil
  then show ?case by simp
next
  case (Cons v vs)
  show ?case
  proof (cases "vs = []")
    case True
    then show ?thesis
      by (simp add: spec_arg_lines_Cons spec_arg_lines_Nil spec_arg_line_def suffix_def)
  next
    case False
    then have "suffix ''\<newline>'' (spec_arg_lines (Suc k) vs)" by (rule Cons.IH)
    then show ?thesis
      by (simp only: spec_arg_lines_Cons suffix_appendI)
  qed
qed

lemma spec_arg_section_newline: "suffix ''\<newline>'' (spec_arg_section args)"
proof (cases "args = []")
  case True
  then show ?thesis by (simp add: spec_arg_section_def suffix_def)
next
  case False
  then have "suffix ''\<newline>'' (spec_arg_lines 1 args)"
    by (rule spec_arg_lines_newline)
  then have "suffix ''\<newline>'' (''Arguments received:\<newline>'' @ spec_arg_lines 1 args)"
    by (rule suffix_appendI)
  with False show ?thesis
    unfolding spec_arg_section_def by (simp only: not_False_eq_True if_True)
qed

text \<open>
  Both faults of the model are reached by vectors that no program startup produces: a
  null pointer before \<^verbatim>\<open>argv[argc]\<close>, and a vector shorter than \<^verbatim>\<open>argc\<close>.
\<close>

lemma main_null_fault: "main 3 [Some ''playground'', None, None] '''' = Some (Inl NullString)"
  by (simp add: main_def printf_def args_loop.simps argv_at_def printf_d_s_def word_sless_alt
      dec_int_def dec_nat.simps digit_char_def)

lemma main_bounds_fault: "main 3 [Some ''playground'', Some ''foo''] '''' = Some (Inl OutOfBounds)"
  by (simp add: main_def printf_def args_loop.simps argv_at_def printf_d_s_def word_sless_alt
      dec_int_def dec_nat.simps digit_char_def)

section \<open>The claims\<close>

text \<open>
  C1. Started with \<open>N \<ge> 1\<close> arguments, the program writes the banner, then the line
  \<open>Arguments received:\<close>, then for \<open>i = 1 .. N\<close>, in the order received, the bytes
  \<open>  [\<close>, the decimal \<open>i\<close>, \<open>]: \<close>, the bytes of the \<open>i\<close>-th argument unchanged and a
  newline, then the closing lines, and nothing else. An empty argument gives the line
  \<open>  [i]: \<close> with nothing after the space.
\<close>

theorem arguments_echoed:
  assumes "hosted argc argv (prog # args)" and "args \<noteq> []"
  shows "main argc argv out0 =
         Some (Inr (out0 @ spec_banner @
                    ''Arguments received:\<newline>'' @
                    concat (map2 (\<lambda>j v. ''  ['' @ dec_int (int j) @ '']: '' @ v @ ''\<newline>'')
                                 [1..<Suc (length args)] args) @
                    spec_closing, 0))"
proof -
  have "spec_arg_section args =
        ''Arguments received:\<newline>'' @
        concat (map2 (\<lambda>j v. ''  ['' @ dec_int (int j) @ '']: '' @ v @ ''\<newline>'')
                     [1..<Suc (length args)] args)"
    using assms(2) by (simp add: spec_arg_section_def spec_arg_lines_def spec_arg_line_def)
  with main_hosted [OF assms(1), of out0] show ?thesis by simp
qed

theorem arguments_echoed_witness:
  "hosted 4 [Some ''playground'', Some ''foo'', Some '''', Some ''a b'', None]
          (''playground'' # [''foo'', '''', ''a b'']) \<and>
   [''foo'', '''', ''a b''] \<noteq> [] \<and>
   main 4 [Some ''playground'', Some ''foo'', Some '''', Some ''a b'', None] '''' =
   Some (Inr (''=== Playground Test Area for Orca ===\<newline>Hello from playground!\<newline>This is a test environment for orca integration.\<newline>\<newline>Arguments received:\<newline>  [1]: foo\<newline>  [2]: \<newline>  [3]: a b\<newline>\<newline>Playground test completed successfully.\<newline>'', 0))"
proof -
  have h: "hosted 4 [Some ''playground'', Some ''foo'', Some '''', Some ''a b'', None]
                  (''playground'' # [''foo'', '''', ''a b''])"
    by (simp add: hosted_def)
  show ?thesis
    using h arguments_echoed [OF h, of "''''"]
    by (simp add: spec_banner_def spec_closing_def dec_int_def dec_nat.simps digit_char_def
        upt_conv_Cons del: upt_Suc)
qed

text \<open>
  C2. Whatever the number of arguments, what the program writes begins with the three
  banner lines and a blank line; everything that depends on the arguments comes after
  them.
\<close>

theorem banner_first:
  assumes "hosted argc argv strs"
  shows "\<exists>rest. main argc argv out0 =
           Some (Inr (out0 @
                      ''=== Playground Test Area for Orca ===\<newline>'' @
                      ''Hello from playground!\<newline>'' @
                      ''This is a test environment for orca integration.\<newline>'' @
                      ''\<newline>'' @ rest, 0))"
  using main_hosted [OF assms, of out0] by (simp add: spec_banner_def)

theorem banner_first_witness:
  "hosted 2 [Some ''playground'', Some ''foo'', None] [''playground'', ''foo''] \<and>
   (\<exists>rest. main 2 [Some ''playground'', Some ''foo'', None] ''''  =
      Some (Inr (''=== Playground Test Area for Orca ===\<newline>Hello from playground!\<newline>This is a test environment for orca integration.\<newline>\<newline>'' @ rest, 0)))"
proof -
  have h: "hosted 2 [Some ''playground'', Some ''foo'', None] [''playground'', ''foo'']"
    by (simp add: hosted_def)
  show ?thesis
    using h banner_first [OF h, of "''''"] by simp
qed

text \<open>
  C3, as amended. Started with no argument, the program writes the banner, the line
  \<open>No arguments provided.\<close> and the closing blank line and completion line, and
  nothing else; the bytes \<open>Arguments received:\<close> occur nowhere in it. The line
  \<open>No arguments provided.\<close> ends the argument section, not the output.
\<close>

theorem no_arguments_section:
  assumes "hosted argc argv [prog]"
  shows "main argc argv out0 =
           Some (Inr (out0 @ spec_banner @ ''No arguments provided.\<newline>'' @ spec_closing, 0)) \<and>
         \<not> sublist ''Arguments received:''
             (spec_banner @ ''No arguments provided.\<newline>'' @ spec_closing)"
proof
  show "main argc argv out0 =
          Some (Inr (out0 @ spec_banner @ ''No arguments provided.\<newline>'' @ spec_closing, 0))"
    using main_hosted [OF assms, of out0] by (simp add: spec_arg_section_def)
  show "\<not> sublist ''Arguments received:''
            (spec_banner @ ''No arguments provided.\<newline>'' @ spec_closing)"
    by (simp add: spec_banner_def spec_closing_def sublist_Cons_right)
qed

theorem no_arguments_section_witness:
  "hosted 1 [Some ''playground'', None] [''playground''] \<and>
   main 1 [Some ''playground'', None] '''' =
     Some (Inr (''=== Playground Test Area for Orca ===\<newline>Hello from playground!\<newline>This is a test environment for orca integration.\<newline>\<newline>No arguments provided.\<newline>\<newline>Playground test completed successfully.\<newline>'', 0))"
proof -
  have h: "hosted 1 [Some ''playground'', None] [''playground'']"
    by (simp add: hosted_def)
  show ?thesis
    using h no_arguments_section [OF h, of "''''"]
    by (simp add: spec_banner_def spec_closing_def)
qed

text \<open>
  C3, as stated, fails: with no argument the last line of the output is the completion
  line, so the output does not end with \<open>No arguments provided.\<close>, with or without its
  newline.
\<close>

theorem no_arguments_last_line_counterexample:
  "main 1 [Some ''playground'', None] '''' =
     Some (Inr (''=== Playground Test Area for Orca ===\<newline>Hello from playground!\<newline>This is a test environment for orca integration.\<newline>\<newline>No arguments provided.\<newline>\<newline>Playground test completed successfully.\<newline>'', 0)) \<and>
   \<not> suffix ''No arguments provided.\<newline>''
       ''=== Playground Test Area for Orca ===\<newline>Hello from playground!\<newline>This is a test environment for orca integration.\<newline>\<newline>No arguments provided.\<newline>\<newline>Playground test completed successfully.\<newline>'' \<and>
   \<not> suffix ''No arguments provided.''
       ''=== Playground Test Area for Orca ===\<newline>Hello from playground!\<newline>This is a test environment for orca integration.\<newline>\<newline>No arguments provided.\<newline>\<newline>Playground test completed successfully.\<newline>''"
  by (simp add: main_def printf_def word_sless_alt suffix_to_prefix)

text \<open>
  C4. Whatever the number of arguments, the output is the banner, the argument section
  (the \<open>Arguments received:\<close> header with one line for each argument, or the line
  \<open>No arguments provided.\<close>) and then, last, an empty line and the line
  \<open>Playground test completed successfully.\<close>. The argument section ends with a
  newline, so the newline that follows it is a blank line.
\<close>

theorem closing_last:
  assumes "hosted argc argv strs"
  shows "main argc argv out0 =
           Some (Inr (out0 @ spec_banner @ spec_arg_section (tl strs) @
                      ''\<newline>'' @ ''Playground test completed successfully.\<newline>'', 0)) \<and>
         suffix ''\<newline>'' (spec_arg_section (tl strs))"
  using main_hosted [OF assms, of out0] spec_arg_section_newline [of "tl strs"]
  by (simp add: spec_closing_def)

theorem closing_last_witness:
  "hosted 2 [Some ''playground'', Some ''foo'', None] [''playground'', ''foo''] \<and>
   main 2 [Some ''playground'', Some ''foo'', None] '''' =
     Some (Inr (''=== Playground Test Area for Orca ===\<newline>Hello from playground!\<newline>This is a test environment for orca integration.\<newline>\<newline>Arguments received:\<newline>  [1]: foo\<newline>\<newline>Playground test completed successfully.\<newline>'', 0)) \<and>
   suffix ''\<newline>'' ''Arguments received:\<newline>  [1]: foo\<newline>''"
proof -
  have h: "hosted 2 [Some ''playground'', Some ''foo'', None] [''playground'', ''foo'']"
    by (simp add: hosted_def)
  show ?thesis
    using h closing_last [OF h, of "''''"]
    by (simp add: spec_banner_def spec_arg_section_def spec_arg_lines_def spec_arg_line_def
        dec_int_def dec_nat.simps digit_char_def)
qed

text \<open>
  C5. For every list of arguments, empty strings and strings with blanks, newlines or
  shell and format characters among them, the program returns, and returns 0.
\<close>

theorem exit_code_zero:
  assumes "hosted argc argv strs"
  shows "\<exists>out. main argc argv out0 = Some (Inr (out, 0))"
  using main_hosted [OF assms, of out0] by simp

theorem exit_code_zero_witness:
  "hosted 4 [Some ''playground'', Some '''', Some ''two words'', Some ''$HOME;*\<newline>%s'', None]
            [''playground'', '''', ''two words'', ''$HOME;*\<newline>%s''] \<and>
   (\<exists>out. main 4 [Some ''playground'', Some '''', Some ''two words'', Some ''$HOME;*\<newline>%s'', None]
                '''' = Some (Inr (out, 0)))"
proof -
  have h: "hosted 4 [Some ''playground'', Some '''', Some ''two words'', Some ''$HOME;*\<newline>%s'', None]
            [''playground'', '''', ''two words'', ''$HOME;*\<newline>%s'']"
    by (simp add: hosted_def)
  show ?thesis
    using h exit_code_zero [OF h, of "''''"] by simp
qed

text \<open>
  C6. For every list of arguments the run takes no error branch: it neither fails to
  return nor ends in one of the two faults.
\<close>

theorem no_error_branch:
  assumes "hosted argc argv strs"
  shows "main argc argv out0 \<noteq> None \<and> (\<forall>f. main argc argv out0 \<noteq> Some (Inl f))"
  using main_hosted [OF assms, of out0] by simp

theorem no_error_branch_witness:
  "hosted 3 [Some ''playground'', Some ''--help'', Some ''-1'', None]
            [''playground'', ''--help'', ''-1''] \<and>
   main 3 [Some ''playground'', Some ''--help'', Some ''-1'', None] '''' \<noteq> None \<and>
   (\<forall>f. main 3 [Some ''playground'', Some ''--help'', Some ''-1'', None] '''' \<noteq> Some (Inl f))"
proof -
  have h: "hosted 3 [Some ''playground'', Some ''--help'', Some ''-1'', None]
            [''playground'', ''--help'', ''-1'']"
    by (simp add: hosted_def)
  show ?thesis
    using h no_error_branch [OF h, of "''''"] by simp
qed

text \<open>
  C7. Two runs started with the same strings write the same bytes and return the same
  code, 0, whatever standard output held before each of them.
\<close>

theorem same_arguments_same_output:
  assumes "hosted argc argv strs" and "hosted argc' argv' strs"
  shows "\<exists>text. main argc argv out0 = Some (Inr (out0 @ text, 0)) \<and>
                main argc' argv' out1 = Some (Inr (out1 @ text, 0))"
  using main_hosted [OF assms(1), of out0] main_hosted [OF assms(2), of out1] by simp

theorem same_arguments_same_output_witness:
  "hosted 2 [Some ''playground'', Some ''foo'', None] [''playground'', ''foo''] \<and>
   (\<exists>text. main 2 [Some ''playground'', Some ''foo'', None] '''' = Some (Inr ('''' @ text, 0)) \<and>
            main 2 [Some ''playground'', Some ''foo'', None] ''earlier output\<newline>'' =
              Some (Inr (''earlier output\<newline>'' @ text, 0)))"
proof -
  have h: "hosted 2 [Some ''playground'', Some ''foo'', None] [''playground'', ''foo'']"
    by (simp add: hosted_def)
  show ?thesis
    using h same_arguments_same_output [OF h h, of "''''" "''earlier output\<newline>''"] by simp
qed

text \<open>
  C8. The result does not depend on \<^verbatim>\<open>argv[0]\<close>: two runs whose vectors differ in the
  first entry only have the same output and the same return code, so the program name
  is never shown.
\<close>

theorem program_name_not_read:
  "main argc (p # rest) out0 = main argc (q # rest) out0"
proof (cases "1 <s argc")
  case True
  then show ?thesis
    using args_loop_argv0 [of 1 argc p rest _ q] by (simp add: main_def)
next
  case False
  then show ?thesis by (simp add: main_def)
qed

text \<open>
  C9. With \<^verbatim>\<open>argc = 0\<close> the test \<^verbatim>\<open>argc > 1\<close> fails and \<^verbatim>\<open>argv\<close> is not read: the
  program writes the banner, \<open>No arguments provided.\<close>, the blank line and the
  completion line, and returns 0.
\<close>

theorem empty_argument_vector:
  "main 0 argv out0 =
     Some (Inr (out0 @ ''=== Playground Test Area for Orca ===\<newline>Hello from playground!\<newline>This is a test environment for orca integration.\<newline>\<newline>No arguments provided.\<newline>\<newline>Playground test completed successfully.\<newline>'', 0))"
  by (simp add: main_def printf_def word_sless_alt)

text \<open>
  C10. The program terminates on every \<^verbatim>\<open>argc\<close> and \<^verbatim>\<open>argv\<close>: its only loop counts
  \<^verbatim>\<open>i\<close> up from 1 and stops when \<^verbatim>\<open>i\<close> reaches \<^verbatim>\<open>argc\<close>, or earlier at a fault.
\<close>

theorem main_terminates: "\<exists>r. main argc argv out0 = Some r"
proof (cases "1 <s argc")
  case True
  obtain r where "args_loop 1 argc argv
      (printf ''Arguments received:\<newline>''
        (printf ''This is a test environment for orca integration.\<newline>\<newline>''
          (printf ''Hello from playground!\<newline>''
            (printf ''=== Playground Test Area for Orca ===\<newline>'' out0)))) = Some r"
    using args_loop_returns by blast
  with True show ?thesis
    by (cases r) (simp_all add: main_def)
next
  case False
  then show ?thesis by (simp add: main_def)
qed

end
